theory Spec2Isabelle
  imports Complex_Main "HOL-Library.Sublist"
begin

section \<open>The values that reach \<open>clasificarCalidadAire\<close>\<close>

text \<open>
  \<open>clasificarCalidadAire(contaminante, valor, tiempoHoras)\<close> of
  \<^verbatim>\<open>src/backend/basedatos.js\<close> is documented as taking a string, a number and a number.
  The pollutant is modelled as a string and the exposure time as a number; the measured
  value is modelled as any primitive value of the language, since the function itself
  tests it for \<open>null\<close>, \<open>undefined\<close> and \<open>NaN\<close>.

  A number is \<open>NaN\<close>, an infinity, or a finite double. The function only compares numbers
  with each other, and a comparison of doubles is the comparison of the reals they denote,
  so a finite double is modelled by that real (the two zeros are one value).
  A string is the list of its code units; the literals of the function only use code units
  below 256, each of them one \<open>char\<close>. Objects are not modelled: converting one to a
  number runs code of the caller.
\<close>

datatype jsnum = NaN | NegInf | Fin real | PosInf

datatype jsval =
    Undefined
  | Null
  | Boolean bool
  | Number jsnum
  | String string
  | BigInt int
  | Symbol

datatype js_error = TypeError

text \<open>
  Two conversions of the language runtime are reached whose result depends on the binary
  representation of doubles: reading a string as a number, and printing a number that is
  not an integer below \<open>2 ^ 53\<close>. They are not code of the repository and are taken as
  parameters.
\<close>

record runtime =
  StringToNumber :: "string \<Rightarrow> jsnum"
  FractionToString :: "real \<Rightarrow> string"

text \<open>\<open>ToNumber\<close>, the conversion behind \<open>isNaN\<close> and behind \<open><=\<close> with a number.\<close>

fun ToNumber :: "runtime \<Rightarrow> jsval \<Rightarrow> js_error + jsnum" where
  "ToNumber rt Undefined = Inr NaN"
| "ToNumber rt Null = Inr (Fin 0)"
| "ToNumber rt (Boolean b) = Inr (Fin (if b then 1 else 0))"
| "ToNumber rt (Number n) = Inr n"
| "ToNumber rt (String s) = Inr (StringToNumber rt s)"
| "ToNumber rt (BigInt i) = Inl TypeError"
| "ToNumber rt Symbol = Inl TypeError"

definition isNaN :: "runtime \<Rightarrow> jsval \<Rightarrow> js_error + bool" where
  "isNaN rt v = (case ToNumber rt v of Inl e \<Rightarrow> Inl e | Inr n \<Rightarrow> Inr (n = NaN))"

text \<open>\<open>a <= b\<close> on numbers: false as soon as one side is \<open>NaN\<close>.\<close>

fun js_le :: "jsnum \<Rightarrow> jsnum \<Rightarrow> bool" where
  "js_le NaN b = False"
| "js_le a NaN = False"
| "js_le NegInf b = True"
| "js_le a PosInf = True"
| "js_le (Fin x) (Fin y) = (x \<le> y)"
| "js_le (Fin x) NegInf = False"
| "js_le PosInf b = False"

text \<open>
  \<open>v <= l\<close> for a primitive \<open>v\<close> and a number \<open>l\<close>: a BigInt is compared by its
  mathematical value, a Symbol raises, every other value is converted by \<open>ToNumber\<close>.
\<close>

fun js_le_value :: "runtime \<Rightarrow> jsval \<Rightarrow> jsnum \<Rightarrow> js_error + bool" where
  "js_le_value rt (BigInt i) l = Inr (js_le (Fin (of_int i)) l)"
| "js_le_value rt v l = (case ToNumber rt v of Inl e \<Rightarrow> Inl e | Inr n \<Rightarrow> Inr (js_le n l))"

text \<open>
  \<open>Number::toString\<close>, used by the template literal that prints \<open>tiempoHoras\<close>: the
  decimal digits for an integer below \<open>2 ^ 53\<close> in absolute value.
\<close>

fun decimal :: "nat \<Rightarrow> string" where
  "decimal n =
     (if n < 10 then [''0123456789'' ! n]
      else decimal (n div 10) @ [''0123456789'' ! (n mod 10)])"

declare decimal.simps [simp del]

definition NumberToString :: "runtime \<Rightarrow> jsnum \<Rightarrow> string" where
  "NumberToString rt n =
     (case n of
        NaN \<Rightarrow> ''NaN''
      | NegInf \<Rightarrow> ''-Infinity''
      | PosInf \<Rightarrow> ''Infinity''
      | Fin r \<Rightarrow>
          if real_of_int \<lfloor>r\<rfloor> = r \<and> \<bar>r\<bar> < 2 ^ 53
          then (if r < 0 then ''-'' else '''') @ decimal (nat \<bar>\<lfloor>r\<rfloor>\<bar>)
          else FractionToString rt r)"

section \<open>The threshold table\<close>

text \<open>
  The object literal \<open>limites\<close> (lines 340 to 369), in the order of the source: pollutant,
  then exposure time in hours, then the array \<open>[limiteBuena, limiteRegular]\<close>, which the
  function destructures into its two elements.
\<close>

definition limites :: "(string \<times> (nat \<times> real \<times> real) list) list" where
  "limites =
    [(''O3'',    [(1, 100, 160), (8, 60, 100)]),
     (''PM10'',  [(1, 50, 100), (24, 45, 75)]),
     (''PM2.5'', [(1, 15, 25), (24, 15, 25)]),
     (''SO2'',   [(1, 100, 196), (3, 100, 250), (24, 40, 125)]),
     (''NO2'',   [(1, 200, 360), (24, 25, 50)]),
     (''CO'',    [(1, 4000, 10000), (8, 7000, 10000)]),
     (''NO'',    [(1, 100, 200)])]"

text \<open>
  \<open>limites[contaminante]\<close> is a property read: it finds the own properties of the literal
  and, failing that, the properties that every object inherits from \<open>Object.prototype\<close>.
  Each inherited one is an object (a function, or \<open>Object.prototype\<close> itself for
  \<open>__proto__\<close>), so it is truthy.
\<close>

definition Object_prototype_names :: "string list" where
  "Object_prototype_names =
    [''constructor'', ''hasOwnProperty'', ''isPrototypeOf'', ''propertyIsEnumerable'',
     ''toLocaleString'', ''toString'', ''valueOf'', ''__proto__'',
     ''__defineGetter__'', ''__defineSetter__'', ''__lookupGetter__'', ''__lookupSetter__'']"

datatype limites_property =
    NoProperty
  | OwnProperty "(nat \<times> real \<times> real) list"
  | InheritedProperty

definition limites_get :: "string \<Rightarrow> limites_property" where
  "limites_get contaminante =
     (case map_of limites contaminante of
        Some rangosContaminante \<Rightarrow> OwnProperty rangosContaminante
      | None \<Rightarrow>
          if contaminante \<in> set Object_prototype_names then InheritedProperty
          else NoProperty)"

text \<open>
  \<open>rangosContaminante[tiempoHoras]\<close> with a number: the property key is the number printed
  by \<open>Number::toString\<close>, which is the key \<open>k\<close> of the literal exactly when the number is
  \<open>k\<close>. No inherited object has a property named by a number.
\<close>

fun own_get :: "(nat \<times> real \<times> real) list \<Rightarrow> jsnum \<Rightarrow> (real \<times> real) option" where
  "own_get tbl (Fin r) = map_option snd (find (\<lambda>(k, rangos). real k = r) tbl)"
| "own_get tbl n = None"

fun rangos_get :: "limites_property \<Rightarrow> jsnum \<Rightarrow> (real \<times> real) option" where
  "rangos_get (OwnProperty tbl) tiempoHoras = own_get tbl tiempoHoras"
| "rangos_get p tiempoHoras = None"

section \<open>The classification\<close>

record limites_oms_t =
  buena :: real
  regular :: real
  tiempo_horas :: jsnum
  fuente :: string

record clasificacion =
  nivel :: string
  color :: string
  descripcion :: string
  limites_oms :: "limites_oms_t option"

text \<open>The string literals of the function; \<open>CHR 0xE1\<close> and the like are its accented letters.\<close>

definition txt_sin_informacion :: string where
  "txt_sin_informacion =
     ''No hay informaci'' @ [CHR 0xF3] @ ''n disponible para esta medici'' @ [CHR 0xF3] @ ''n''"

definition txt_sin_referencia :: "string \<Rightarrow> string" where
  "txt_sin_referencia contaminante =
     ''No hay par'' @ [CHR 0xE1] @ ''metros de referencia para '' @ contaminante"

definition txt_sin_tiempo :: "runtime \<Rightarrow> string \<Rightarrow> jsnum \<Rightarrow> string" where
  "txt_sin_tiempo rt contaminante tiempoHoras =
     ''No hay par'' @ [CHR 0xE1] @ ''metros para '' @ contaminante @ '' con ''
       @ NumberToString rt tiempoHoras @ ''h de exposici'' @ [CHR 0xF3] @ ''n''"

definition txt_buena :: string where
  "txt_buena =
     ''La calidad del aire cumple con los est'' @ [CHR 0xE1]
       @ ''ndares de la OMS y no representa riesgo para la salud''"

definition txt_regular :: string where
  "txt_regular =
     ''La calidad del aire supera las recomendaciones de la OMS. ''
       @ ''Puede afectar a personas sensibles (ni'' @ [CHR 0xF1]
       @ ''os, ancianos, personas con enfermedades respiratorias)''"

definition txt_mala :: string where
  "txt_mala =
     ''La calidad del aire supera significativamente los l'' @ [CHR 0xED]
       @ ''mites seguros de la OMS y puede afectar la salud de toda la poblaci''
       @ [CHR 0xF3] @ ''n''"

text \<open>
  The function, branch by branch. Its \<open>console.log\<close> calls print and do not change the
  result; with a string as pollutant none of them raises. A property that the source
  leaves out of the returned object is \<open>None\<close>.
\<close>

definition clasificarCalidadAire ::
    "runtime \<Rightarrow> string \<Rightarrow> jsval \<Rightarrow> jsnum \<Rightarrow> js_error + clasificacion" where
  "clasificarCalidadAire rt contaminante valor tiempoHoras =
     (if valor = Null \<or> valor = Undefined then
        Inr \<lparr>nivel = ''Sin datos'', color = ''#9E9E9E'',
             descripcion = txt_sin_informacion, limites_oms = None\<rparr>
      else case isNaN rt valor of
        Inl e \<Rightarrow> Inl e
      | Inr True \<Rightarrow>
          Inr \<lparr>nivel = ''Sin datos'', color = ''#9E9E9E'',
               descripcion = txt_sin_informacion, limites_oms = None\<rparr>
      | Inr False \<Rightarrow>
         (case limites_get contaminante of
            NoProperty \<Rightarrow>
              Inr \<lparr>nivel = ''Sin datos'', color = ''#9E9E9E'',
                   descripcion = txt_sin_referencia contaminante, limites_oms = None\<rparr>
          | rangosContaminante \<Rightarrow>
             (case rangos_get rangosContaminante tiempoHoras of
                None \<Rightarrow>
                  Inr \<lparr>nivel = ''Sin datos'', color = ''#9E9E9E'',
                       descripcion = txt_sin_tiempo rt contaminante tiempoHoras,
                       limites_oms = None\<rparr>
              | Some (limiteBuena, limiteRegular) \<Rightarrow>
                 (let referencia =
                        \<lparr>buena = limiteBuena, regular = limiteRegular,
                         tiempo_horas = tiempoHoras, fuente = ''OMS 2021''\<rparr>
                  in case js_le_value rt valor (Fin limiteBuena) of
                       Inl e \<Rightarrow> Inl e
                     | Inr True \<Rightarrow>
                         Inr \<lparr>nivel = ''Buena'', color = ''#00E400'',
                              descripcion = txt_buena, limites_oms = Some referencia\<rparr>
                     | Inr False \<Rightarrow>
                        (case js_le_value rt valor (Fin limiteRegular) of
                           Inl e \<Rightarrow> Inl e
                         | Inr True \<Rightarrow>
                             Inr \<lparr>nivel = ''Regular'', color = ''#FFFF00'',
                                  descripcion = txt_regular,
                                  limites_oms = Some referencia\<rparr>
                         | Inr False \<Rightarrow>
                             Inr \<lparr>nivel = ''Mala'', color = ''#FF0000'',
                                  descripcion = txt_mala,
                                  limites_oms = Some referencia\<rparr>)))))"

text \<open>
  The threshold pair that the table holds for a pollutant and an exposure time, if any:
  the own properties only.
\<close>

definition umbral :: "string \<Rightarrow> jsnum \<Rightarrow> (real \<times> real) option" where
  "umbral contaminante tiempoHoras =
     (case map_of limites contaminante of
        None \<Rightarrow> None
      | Some tbl \<Rightarrow> own_get tbl tiempoHoras)"

text \<open>The table as the list of its rows.\<close>

definition filas :: "(string \<times> nat \<times> real \<times> real) list" where
  "filas = concat (map (\<lambda>(c, tbl). map (\<lambda>(h, b, r). (c, h, b, r)) tbl) limites)"

text \<open>
  A runtime for running the function on concrete inputs that convert no string and print
  no number other than an integer below \<open>2 ^ 53\<close>: on those its two functions are never
  consulted.
\<close>

definition runtime_0 :: runtime where
  "runtime_0 = \<lparr>StringToNumber = (\<lambda>s. NaN), FractionToString = (\<lambda>r. [])\<rparr>"

section \<open>The branches of the function\<close>

text \<open>
  Four lemmas cover every input: a value that cannot be converted, a missing value, a
  pollutant and exposure time without thresholds, and one with thresholds.
\<close>

lemma ToNumber_cases:
  "ToNumber rt v = Inl e \<longleftrightarrow> (v = Symbol \<or> (\<exists>i. v = BigInt i))"
  by (cases v; cases e) auto

lemma js_le_value_number:
  "ToNumber rt v = Inr n \<Longrightarrow> js_le_value rt v l = Inr (js_le n l)"
  by (cases v) auto

lemma umbral_bounds: "umbral c t = Some (g, m) \<Longrightarrow> 0 < g \<and> g < m"
  by (cases t) (auto simp: umbral_def limites_def split: if_splits)

lemma clasificar_sin_valor:
  assumes "v = Null \<or> v = Undefined \<or> ToNumber rt v = Inr NaN"
  shows "clasificarCalidadAire rt c v t =
           Inr \<lparr>nivel = ''Sin datos'', color = ''#9E9E9E'',
                descripcion = txt_sin_informacion, limites_oms = None\<rparr>"
  using assms by (auto simp: clasificarCalidadAire_def isNaN_def)

lemma clasificar_TypeError:
  assumes "ToNumber rt v = Inl e"
  shows "clasificarCalidadAire rt c v t = Inl e"
  using assms by (cases v) (auto simp: clasificarCalidadAire_def isNaN_def)

lemma rangos_get_umbral:
  "rangos_get (limites_get c) t = umbral c t"
  by (simp add: limites_get_def umbral_def split: option.splits)

lemma clasificar_sin_umbral:
  assumes "umbral c t = None" and "ToNumber rt v = Inr n" and "n \<noteq> NaN" and "v \<noteq> Null"
  shows "clasificarCalidadAire rt c v t =
           Inr \<lparr>nivel = ''Sin datos'', color = ''#9E9E9E'',
                descripcion =
                  (if limites_get c = NoProperty then txt_sin_referencia c
                   else txt_sin_tiempo rt c t),
                limites_oms = None\<rparr>"
proof -
  have u: "v \<noteq> Undefined" using assms(2,3) by auto
  have r: "rangos_get (limites_get c) t = None"
    using assms(1) by (simp add: rangos_get_umbral)
  show ?thesis
    using assms(2-4) u r
    by (cases "limites_get c") (simp_all add: clasificarCalidadAire_def isNaN_def)
qed

lemma clasificar_con_umbral:
  assumes "umbral c t = Some (g, m)" and "ToNumber rt v = Inr n" and "n \<noteq> NaN"
    and "v \<noteq> Null"
  shows "clasificarCalidadAire rt c v t =
           Inr (if js_le n (Fin g) then
                  \<lparr>nivel = ''Buena'', color = ''#00E400'', descripcion = txt_buena,
                   limites_oms = Some \<lparr>buena = g, regular = m, tiempo_horas = t,
                                        fuente = ''OMS 2021''\<rparr>\<rparr>
                else if js_le n (Fin m) then
                  \<lparr>nivel = ''Regular'', color = ''#FFFF00'', descripcion = txt_regular,
                   limites_oms = Some \<lparr>buena = g, regular = m, tiempo_horas = t,
                                        fuente = ''OMS 2021''\<rparr>\<rparr>
                else
                  \<lparr>nivel = ''Mala'', color = ''#FF0000'', descripcion = txt_mala,
                   limites_oms = Some \<lparr>buena = g, regular = m, tiempo_horas = t,
                                        fuente = ''OMS 2021''\<rparr>\<rparr>)"
proof -
  have u: "v \<noteq> Undefined" using assms(2,3) by auto
  have r: "rangos_get (limites_get c) t = Some (g, m)"
    using assms(1) by (simp add: rangos_get_umbral)
  then have p: "limites_get c \<noteq> NoProperty" by auto
  have l: "js_le_value rt v l = Inr (js_le n l)" for l
    using assms(2) by (rule js_le_value_number)
  show ?thesis
    using assms(2-4) u r p
    by (cases "limites_get c") (simp_all add: clasificarCalidadAire_def isNaN_def l)
qed

lemma cases_of_value:
  obtains (raises) "ToNumber rt v = Inl TypeError"
  | (missing) "v = Null \<or> v = Undefined \<or> ToNumber rt v = Inr NaN"
  | (number) n where "ToNumber rt v = Inr n" and "n \<noteq> NaN" and "v \<noteq> Null"
proof (cases "ToNumber rt v")
  case (Inl e)
  then show ?thesis using raises by (cases e) simp
next
  case (Inr n)
  then show ?thesis using missing number by (cases "v = Null \<or> n = NaN") auto
qed

lemma txt_sin_referencia_neq: "txt_sin_referencia c \<noteq> txt_sin_informacion"
  by (simp add: txt_sin_referencia_def txt_sin_informacion_def)

lemma txt_sin_tiempo_neq: "txt_sin_tiempo rt c t \<noteq> txt_sin_informacion"
  by (simp add: txt_sin_tiempo_def txt_sin_informacion_def)

lemma sublist_txt_sin_referencia: "sublist c (txt_sin_referencia c)"
  unfolding txt_sin_referencia_def sublist_def
  by (intro exI [of _ "''No hay par'' @ [CHR 0xE1] @ ''metros de referencia para ''"]
        exI [of _ "[]"]) simp

lemma sublist_txt_sin_tiempo: "sublist c (txt_sin_tiempo rt c t)"
  unfolding txt_sin_tiempo_def sublist_def
  by (intro exI [of _ "''No hay par'' @ [CHR 0xE1] @ ''metros para ''"]
        exI [of _ "'' con '' @ NumberToString rt t @ ''h de exposici'' @ [CHR 0xF3] @ ''n''"])
     simp

lemma sublist_horas_txt_sin_tiempo: "sublist (NumberToString rt t) (txt_sin_tiempo rt c t)"
  unfolding txt_sin_tiempo_def sublist_def
  by (intro exI [of _ "''No hay par'' @ [CHR 0xE1] @ ''metros para '' @ c @ '' con ''"]
        exI [of _ "''h de exposici'' @ [CHR 0xF3] @ ''n''"])
     simp

lemma limites_get_NoProperty:
  "limites_get c = NoProperty \<longleftrightarrow> map_of limites c = None \<and> c \<notin> set Object_prototype_names"
  by (simp add: limites_get_def split: option.splits)

lemma own_get_None:
  "own_get tbl t = None \<longleftrightarrow> \<not> (\<exists>k rangos. (k, rangos) \<in> set tbl \<and> t = Fin (real k))"
  by (cases t) (auto simp: find_None_iff)

section \<open>Thresholds with inclusive boundaries\<close>

text \<open>
  Claim C1. For a pollutant and an exposure time that the table holds, with the pair
  \<open>(g, m)\<close>, and a value that is a number other than \<open>NaN\<close>, the function returns a
  result; its level is \<open>Buena\<close> (Good) exactly when the value is at most \<open>g\<close>,
  \<open>Regular\<close> (Moderate) exactly when it is above \<open>g\<close> and at most \<open>m\<close>, and \<open>Mala\<close>
  (Poor) exactly when it is above \<open>m\<close>. Both boundaries are inclusive: the value \<open>g\<close> is
  \<open>Buena\<close> and the value \<open>m\<close> is \<open>Regular\<close>, not \<open>Mala\<close>.
\<close>

theorem umbrales_inclusivos:
  assumes "umbral c t = Some (g, m)" and "n \<noteq> NaN"
  shows "(\<exists>r. clasificarCalidadAire rt c (Number n) t = Inr r
            \<and> (nivel r = ''Buena'' \<longleftrightarrow> js_le n (Fin g))
            \<and> (nivel r = ''Regular'' \<longleftrightarrow> \<not> js_le n (Fin g) \<and> js_le n (Fin m))
            \<and> (nivel r = ''Mala'' \<longleftrightarrow> \<not> js_le n (Fin m)))
       \<and> (\<exists>r. clasificarCalidadAire rt c (Number (Fin g)) t = Inr r \<and> nivel r = ''Buena'')
       \<and> (\<exists>r. clasificarCalidadAire rt c (Number (Fin m)) t = Inr r \<and> nivel r = ''Regular'')"
proof -
  have gm: "g < m" using umbral_bounds [OF assms(1)] by simp
  have le: "js_le n (Fin g) \<Longrightarrow> js_le n (Fin m)"
    using gm by (cases n) auto
  have "clasificarCalidadAire rt c (Number n) t =
          Inr (if js_le n (Fin g) then
                 \<lparr>nivel = ''Buena'', color = ''#00E400'', descripcion = txt_buena,
                  limites_oms = Some \<lparr>buena = g, regular = m, tiempo_horas = t,
                                       fuente = ''OMS 2021''\<rparr>\<rparr>
               else if js_le n (Fin m) then
                 \<lparr>nivel = ''Regular'', color = ''#FFFF00'', descripcion = txt_regular,
                  limites_oms = Some \<lparr>buena = g, regular = m, tiempo_horas = t,
                                       fuente = ''OMS 2021''\<rparr>\<rparr>
               else
                 \<lparr>nivel = ''Mala'', color = ''#FF0000'', descripcion = txt_mala,
                  limites_oms = Some \<lparr>buena = g, regular = m, tiempo_horas = t,
                                       fuente = ''OMS 2021''\<rparr>\<rparr>)"
    using assms by (intro clasificar_con_umbral) simp_all
  then have general: "\<exists>r. clasificarCalidadAire rt c (Number n) t = Inr r
            \<and> (nivel r = ''Buena'' \<longleftrightarrow> js_le n (Fin g))
            \<and> (nivel r = ''Regular'' \<longleftrightarrow> \<not> js_le n (Fin g) \<and> js_le n (Fin m))
            \<and> (nivel r = ''Mala'' \<longleftrightarrow> \<not> js_le n (Fin m))"
    using le by auto
  have "clasificarCalidadAire rt c (Number (Fin g)) t =
          Inr \<lparr>nivel = ''Buena'', color = ''#00E400'', descripcion = txt_buena,
               limites_oms = Some \<lparr>buena = g, regular = m, tiempo_horas = t,
                                    fuente = ''OMS 2021''\<rparr>\<rparr>"
    using clasificar_con_umbral [OF assms(1), of rt "Number (Fin g)" "Fin g"] by simp
  then have at_g: "\<exists>r. clasificarCalidadAire rt c (Number (Fin g)) t = Inr r
                     \<and> nivel r = ''Buena''"
    by simp
  have "clasificarCalidadAire rt c (Number (Fin m)) t =
          Inr \<lparr>nivel = ''Regular'', color = ''#FFFF00'', descripcion = txt_regular,
               limites_oms = Some \<lparr>buena = g, regular = m, tiempo_horas = t,
                                    fuente = ''OMS 2021''\<rparr>\<rparr>"
    using clasificar_con_umbral [OF assms(1), of rt "Number (Fin m)" "Fin m"] gm by simp
  then have at_m: "\<exists>r. clasificarCalidadAire rt c (Number (Fin m)) t = Inr r
                     \<and> nivel r = ''Regular''"
    by simp
  from general at_g at_m show ?thesis by blast
qed

lemma umbral_PM25_24: "umbral ''PM2.5'' (Fin 24) = Some (15, 25)"
  by (simp add: umbral_def limites_def)

theorem umbrales_inclusivos_PM25:
  "umbral ''PM2.5'' (Fin 24) = Some (15, 25) \<and> Fin 20 \<noteq> NaN
   \<and> (\<exists>r. clasificarCalidadAire runtime_0 ''PM2.5'' (Number (Fin 20)) (Fin 24) = Inr r
          \<and> nivel r = ''Regular'')
   \<and> (\<exists>r. clasificarCalidadAire runtime_0 ''PM2.5'' (Number (Fin 15)) (Fin 24) = Inr r
          \<and> nivel r = ''Buena'')
   \<and> (\<exists>r. clasificarCalidadAire runtime_0 ''PM2.5'' (Number (Fin 25)) (Fin 24) = Inr r
          \<and> nivel r = ''Regular'')"
proof -
  have n: "Fin 20 \<noteq> NaN" by simp
  note th = umbrales_inclusivos [OF umbral_PM25_24 n, of runtime_0]
  have "\<exists>r. clasificarCalidadAire runtime_0 ''PM2.5'' (Number (Fin 20)) (Fin 24) = Inr r
          \<and> nivel r = ''Regular''"
    using th by auto
  then show ?thesis
    using umbral_PM25_24 n th by simp
qed

section \<open>A missing value\<close>

text \<open>
  Claim C3. Whatever the pollutant and the exposure time, a value that is \<open>null\<close>,
  \<open>undefined\<close> or \<open>NaN\<close> gives the level \<open>Sin datos\<close> (Unavailable), the description that
  no information is available for the measurement, and no \<open>limites_oms\<close> property.
\<close>

theorem sin_datos_por_valor:
  "clasificarCalidadAire rt c Null t =
     Inr \<lparr>nivel = ''Sin datos'', color = ''#9E9E9E'',
          descripcion = txt_sin_informacion, limites_oms = None\<rparr>
   \<and> clasificarCalidadAire rt c Undefined t =
     Inr \<lparr>nivel = ''Sin datos'', color = ''#9E9E9E'',
          descripcion = txt_sin_informacion, limites_oms = None\<rparr>
   \<and> clasificarCalidadAire rt c (Number NaN) t =
     Inr \<lparr>nivel = ''Sin datos'', color = ''#9E9E9E'',
          descripcion = txt_sin_informacion, limites_oms = None\<rparr>"
  by (simp add: clasificarCalidadAire_def isNaN_def)

section \<open>A value below the first threshold\<close>

text \<open>
  Claim C10. The function does not validate the range of the value: for a pollutant and an
  exposure time that the table holds, every number at most the first threshold gives the
  level \<open>Buena\<close> (Good); so do zero, every negative number and minus infinity.
\<close>

theorem sin_validacion_de_rango:
  assumes "umbral c t = Some (g, m)"
  shows "(js_le n (Fin g) \<longrightarrow>
            (\<exists>r. clasificarCalidadAire rt c (Number n) t = Inr r \<and> nivel r = ''Buena''))
       \<and> (\<exists>r. clasificarCalidadAire rt c (Number (Fin 0)) t = Inr r \<and> nivel r = ''Buena'')
       \<and> (x < 0 \<longrightarrow>
            (\<exists>r. clasificarCalidadAire rt c (Number (Fin x)) t = Inr r \<and> nivel r = ''Buena''))
       \<and> (\<exists>r. clasificarCalidadAire rt c (Number NegInf) t = Inr r \<and> nivel r = ''Buena'')"
proof -
  have g: "0 < g" using umbral_bounds [OF assms] by simp
  have buena: "\<exists>r. clasificarCalidadAire rt c (Number k) t = Inr r \<and> nivel r = ''Buena''"
    if "js_le k (Fin g)" for k
  proof -
    have "k \<noteq> NaN" using that by auto
    then show ?thesis
      using clasificar_con_umbral [OF assms, of rt "Number k" k] that by simp
  qed
  have "js_le (Fin 0) (Fin g)" using g by simp
  moreover have "js_le (Fin x) (Fin g)" if "x < 0" using g that by simp
  moreover have "js_le NegInf (Fin g)" by simp
  ultimately show ?thesis using buena by blast
qed

lemma umbral_CO_1: "umbral ''CO'' (Fin 1) = Some (4000, 10000)"
  by (simp add: umbral_def limites_def)

theorem sin_validacion_de_rango_CO:
  "umbral ''CO'' (Fin 1) = Some (4000, 10000) \<and> js_le (Fin (- 3)) (Fin 4000) \<and> (- 3 :: real) < 0
   \<and> (\<exists>r. clasificarCalidadAire runtime_0 ''CO'' (Number (Fin (- 3))) (Fin 1) = Inr r
          \<and> nivel r = ''Buena'')"
proof -
  have x: "(- 3 :: real) < 0" by simp
  have "\<exists>r. clasificarCalidadAire runtime_0 ''CO'' (Number (Fin (- 3))) (Fin 1) = Inr r
          \<and> nivel r = ''Buena''"
    using sin_validacion_de_rango [OF umbral_CO_1, of "Fin (- 3)" runtime_0 "- 3"] x
    by simp
  then show ?thesis using umbral_CO_1 by simp
qed

section \<open>Precedence of the missing value\<close>

text \<open>
  Claim C9. The test of the value comes first: whatever the pollutant and the exposure
  time, in the table or not, a value that is \<open>null\<close>, \<open>undefined\<close> or converts to \<open>NaN\<close>
  gives the description of the missing value, which is neither the description of an
  unknown pollutant nor that of an exposure time without parameters.
\<close>

theorem valor_ausente_primero:
  assumes "v = Null \<or> v = Undefined \<or> ToNumber rt v = Inr NaN"
  shows "\<exists>r. clasificarCalidadAire rt c v t = Inr r
           \<and> descripcion r = txt_sin_informacion
           \<and> descripcion r \<noteq> txt_sin_referencia c
           \<and> descripcion r \<noteq> txt_sin_tiempo rt c t"
  using clasificar_sin_valor [OF assms, of c t]
    txt_sin_referencia_neq [of c] txt_sin_tiempo_neq [of rt c t]
  by auto

theorem valor_ausente_primero_desconocido:
  "(Null = Null \<or> Null = Undefined \<or> ToNumber runtime_0 Null = Inr NaN)
   \<and> map_of limites ''Xx-unknown'' = None
   \<and> (\<exists>r. clasificarCalidadAire runtime_0 ''Xx-unknown'' Null (Fin 5) = Inr r
          \<and> descripcion r = txt_sin_informacion
          \<and> descripcion r \<noteq> txt_sin_referencia ''Xx-unknown''
          \<and> descripcion r \<noteq> txt_sin_tiempo runtime_0 ''Xx-unknown'' (Fin 5))"
proof -
  have h: "Null = Null \<or> Null = Undefined \<or> ToNumber runtime_0 Null = Inr NaN" by simp
  have u: "map_of limites ''Xx-unknown'' = None" by (simp add: limites_def)
  show ?thesis
    using valor_ausente_primero [OF h, of "''Xx-unknown''" "Fin 5"] u by simp
qed

section \<open>A pollutant that the table does not hold\<close>

text \<open>
  Claim C4. For a value that is a number other than \<open>NaN\<close> and any exposure time, a
  pollutant without an entry in the table gives the level \<open>Sin datos\<close> (Unavailable), no
  \<open>limites_oms\<close>, and a description that contains the name of the pollutant and differs
  from the description of a missing value. The description is the one for a pollutant
  without reference parameters, except for the twelve names that \<open>limites\<close> inherits from
  \<open>Object.prototype\<close>: for those it is the one for an exposure time without parameters.
\<close>

theorem contaminante_desconocido:
  assumes "map_of limites c = None" and "n \<noteq> NaN"
  shows "\<exists>r. clasificarCalidadAire rt c (Number n) t = Inr r
           \<and> nivel r = ''Sin datos''
           \<and> limites_oms r = None
           \<and> sublist c (descripcion r)
           \<and> descripcion r \<noteq> txt_sin_informacion
           \<and> descripcion r =
               (if c \<in> set Object_prototype_names then txt_sin_tiempo rt c t
                else txt_sin_referencia c)"
proof -
  have u: "umbral c t = None" using assms(1) by (simp add: umbral_def)
  have p: "limites_get c = NoProperty \<longleftrightarrow> c \<notin> set Object_prototype_names"
    using assms(1) by (simp add: limites_get_NoProperty)
  have "clasificarCalidadAire rt c (Number n) t =
          Inr \<lparr>nivel = ''Sin datos'', color = ''#9E9E9E'',
               descripcion =
                 (if limites_get c = NoProperty then txt_sin_referencia c
                  else txt_sin_tiempo rt c t),
               limites_oms = None\<rparr>"
    using u assms(2) by (intro clasificar_sin_umbral) simp_all
  then show ?thesis
    using p txt_sin_referencia_neq [of c] txt_sin_tiempo_neq [of rt c t]
      sublist_txt_sin_referencia [of c] sublist_txt_sin_tiempo [of c rt t]
    by simp
qed

theorem contaminante_desconocido_Xx:
  "map_of limites ''Xx-unknown'' = None \<and> Fin 10 \<noteq> NaN
   \<and> (\<exists>r. clasificarCalidadAire runtime_0 ''Xx-unknown'' (Number (Fin 10)) (Fin 24) = Inr r
          \<and> nivel r = ''Sin datos''
          \<and> limites_oms r = None
          \<and> descripcion r =
              ''No hay par'' @ [CHR 0xE1] @ ''metros de referencia para Xx-unknown'')"
proof -
  have u: "map_of limites ''Xx-unknown'' = None" by (simp add: limites_def)
  have n: "Fin 10 \<noteq> NaN" by simp
  have d: "(if ''Xx-unknown'' \<in> set Object_prototype_names
            then txt_sin_tiempo runtime_0 ''Xx-unknown'' (Fin 24)
            else txt_sin_referencia ''Xx-unknown'') =
           ''No hay par'' @ [CHR 0xE1] @ ''metros de referencia para Xx-unknown''"
    by (simp add: Object_prototype_names_def txt_sin_referencia_def)
  have "\<exists>r. clasificarCalidadAire runtime_0 ''Xx-unknown'' (Number (Fin 10)) (Fin 24) = Inr r
          \<and> nivel r = ''Sin datos''
          \<and> limites_oms r = None
          \<and> descripcion r =
              ''No hay par'' @ [CHR 0xE1] @ ''metros de referencia para Xx-unknown''"
    using contaminante_desconocido [OF u n, of runtime_0 "Fin 24"] unfolding d by blast
  then show ?thesis using u n by simp
qed

text \<open>An inherited name as pollutant: the answer is about the exposure time.\<close>

lemma contaminante_constructor:
  "clasificarCalidadAire rt ''constructor'' (Number (Fin 10)) (Fin 1) =
     Inr \<lparr>nivel = ''Sin datos'', color = ''#9E9E9E'',
          descripcion = ''No hay par'' @ [CHR 0xE1] @ ''metros para constructor con 1h de exposici''
                          @ [CHR 0xF3] @ ''n'',
          limites_oms = None\<rparr>"
  by (simp add: clasificarCalidadAire_def isNaN_def limites_get_def limites_def
      Object_prototype_names_def txt_sin_tiempo_def NumberToString_def decimal.simps)

section \<open>An exposure time that the table does not hold\<close>

text \<open>
  Claim C5. For a value that is a number other than \<open>NaN\<close> and a pollutant of the table,
  an exposure time for which the pollutant has no entry gives the level \<open>Sin datos\<close>
  (Unavailable), no \<open>limites_oms\<close>, and the description that names the pollutant and the
  exposure time. The match is exact: there is no entry exactly when the exposure time is
  none of the keys of the pollutant. In particular ozone, 50, 5 hours is \<open>Sin datos\<close>.
\<close>

theorem tiempo_sin_parametros:
  "(map_of limites c = Some tbl \<and> own_get tbl t = None \<and> n \<noteq> NaN \<longrightarrow>
      (\<exists>r. clasificarCalidadAire rt c (Number n) t = Inr r
          \<and> nivel r = ''Sin datos''
          \<and> limites_oms r = None
          \<and> descripcion r = txt_sin_tiempo rt c t
          \<and> sublist c (descripcion r)
          \<and> sublist (NumberToString rt t) (descripcion r)))
   \<and> (own_get tbl t = None \<longleftrightarrow> \<not> (\<exists>k rangos. (k, rangos) \<in> set tbl \<and> t = Fin (real k)))
   \<and> clasificarCalidadAire rt ''O3'' (Number (Fin 50)) (Fin 5) =
       Inr \<lparr>nivel = ''Sin datos'', color = ''#9E9E9E'',
            descripcion = ''No hay par'' @ [CHR 0xE1] @ ''metros para O3 con 5h de exposici''
                            @ [CHR 0xF3] @ ''n'',
            limites_oms = None\<rparr>"
proof (intro conjI impI)
  assume h: "map_of limites c = Some tbl \<and> own_get tbl t = None \<and> n \<noteq> NaN"
  then have u: "umbral c t = None" by (simp add: umbral_def)
  have p: "limites_get c \<noteq> NoProperty" using h by (simp add: limites_get_NoProperty)
  have "clasificarCalidadAire rt c (Number n) t =
          Inr \<lparr>nivel = ''Sin datos'', color = ''#9E9E9E'',
               descripcion =
                 (if limites_get c = NoProperty then txt_sin_referencia c
                  else txt_sin_tiempo rt c t),
               limites_oms = None\<rparr>"
    using clasificar_sin_umbral [OF u, of rt "Number n" n] h by simp
  then show "\<exists>r. clasificarCalidadAire rt c (Number n) t = Inr r
          \<and> nivel r = ''Sin datos''
          \<and> limites_oms r = None
          \<and> descripcion r = txt_sin_tiempo rt c t
          \<and> sublist c (descripcion r)
          \<and> sublist (NumberToString rt t) (descripcion r)"
    using p sublist_txt_sin_tiempo [of c rt t] sublist_horas_txt_sin_tiempo [of rt t c]
    by simp
next
  show "own_get tbl t = None \<longleftrightarrow> \<not> (\<exists>k rangos. (k, rangos) \<in> set tbl \<and> t = Fin (real k))"
    by (rule own_get_None)
next
  show "clasificarCalidadAire rt ''O3'' (Number (Fin 50)) (Fin 5) =
       Inr \<lparr>nivel = ''Sin datos'', color = ''#9E9E9E'',
            descripcion = ''No hay par'' @ [CHR 0xE1] @ ''metros para O3 con 5h de exposici''
                            @ [CHR 0xF3] @ ''n'',
            limites_oms = None\<rparr>"
    by (simp add: clasificarCalidadAire_def isNaN_def limites_get_def limites_def
        txt_sin_tiempo_def NumberToString_def decimal.simps)
qed

theorem tiempo_sin_parametros_SO2:
  "map_of limites ''SO2'' = Some [(1, 100, 196), (3, 100, 250), (24, 40, 125)]
   \<and> own_get [(1, 100, 196), (3, 100, 250), (24, 40, 125)] (Fin 8) = None
   \<and> Fin 30 \<noteq> NaN
   \<and> (\<exists>r. clasificarCalidadAire runtime_0 ''SO2'' (Number (Fin 30)) (Fin 8) = Inr r
          \<and> nivel r = ''Sin datos''
          \<and> descripcion r = ''No hay par'' @ [CHR 0xE1] @ ''metros para SO2 con 8h de exposici''
                              @ [CHR 0xF3] @ ''n'')"
proof -
  have m: "map_of limites ''SO2'' = Some [(1, 100, 196), (3, 100, 250), (24, 40, 125)]"
    by (simp add: limites_def)
  have o: "own_get [(1, 100, 196), (3, 100, 250), (24, 40, 125)] (Fin 8) = None"
    by simp
  have n: "Fin 30 \<noteq> NaN" by simp
  have t: "txt_sin_tiempo runtime_0 ''SO2'' (Fin 8) =
             ''No hay par'' @ [CHR 0xE1] @ ''metros para SO2 con 8h de exposici''
               @ [CHR 0xF3] @ ''n''"
    by (simp add: txt_sin_tiempo_def NumberToString_def decimal.simps)
  have "\<exists>r. clasificarCalidadAire runtime_0 ''SO2'' (Number (Fin 30)) (Fin 8) = Inr r
          \<and> nivel r = ''Sin datos''
          \<and> descripcion r = txt_sin_tiempo runtime_0 ''SO2'' (Fin 8)"
    using tiempo_sin_parametros
      [of "''SO2''" "[(1, 100, 196), (3, 100, 250), (24, 40, 125)]" "Fin 8" "Fin 30" runtime_0]
      m o n
    by blast
  then show ?thesis using m o n t by simp
qed

section \<open>The runtime\<close>

text \<open>
  A string as value is classified as the number that the runtime reads in it, and only a
  string as value and an exposure time that is not an integer below \<open>2 ^ 53\<close> reach the
  runtime.
\<close>

lemma clasificar_por_numero:
  assumes "ToNumber rt v = Inr n" and "ToNumber rt' v' = Inr n"
    and "v = Null \<longleftrightarrow> v' = Null"
    and "NumberToString rt t = NumberToString rt' t"
  shows "clasificarCalidadAire rt c v t = clasificarCalidadAire rt' c v' t"
proof (cases "v = Null \<or> n = NaN")
  case True
  then have "v = Null \<or> v = Undefined \<or> ToNumber rt v = Inr NaN"
    and "v' = Null \<or> v' = Undefined \<or> ToNumber rt' v' = Inr NaN"
    using assms(1-3) by auto
  then show ?thesis by (simp add: clasificar_sin_valor)
next
  case False
  then have h: "n \<noteq> NaN" "v \<noteq> Null" "v' \<noteq> Null" using assms(3) by auto
  have d: "txt_sin_tiempo rt c t = txt_sin_tiempo rt' c t"
    using assms(4) by (simp add: txt_sin_tiempo_def)
  show ?thesis
  proof (cases "umbral c t")
    case None
    show ?thesis
      using clasificar_sin_umbral [OF None assms(1) h(1,2)]
        clasificar_sin_umbral [OF None assms(2) h(1,3)] d
      by simp
  next
    case (Some p)
    obtain g m where u: "umbral c t = Some (g, m)" using Some by (cases p) simp
    show ?thesis
      using clasificar_con_umbral [OF u assms(1) h(1,2)]
        clasificar_con_umbral [OF u assms(2) h(1,3)]
      by simp
  qed
qed

lemma valor_String:
  "clasificarCalidadAire rt c (String s) t =
     clasificarCalidadAire rt c (Number (StringToNumber rt s)) t"
  by (rule clasificar_por_numero) simp_all

lemma runtime_irrelevante:
  assumes "\<forall>s. v \<noteq> String s" and "NumberToString rt t = NumberToString rt' t"
  shows "clasificarCalidadAire rt c v t = clasificarCalidadAire rt' c v t"
proof (cases "ToNumber rt v")
  case (Inl e)
  moreover have "ToNumber rt' v = Inl e" using Inl assms(1) by (cases v) simp_all
  ultimately show ?thesis by (simp add: clasificar_TypeError)
next
  case (Inr n)
  moreover have "ToNumber rt' v = Inr n" using Inr assms(1) by (cases v) simp_all
  ultimately show ?thesis using assms(2) by (intro clasificar_por_numero) simp_all
qed

section \<open>The contents of the table\<close>

lemma filas_eq:
  "filas =
    [(''O3'', 1, 100, 160), (''O3'', 8, 60, 100),
     (''PM10'', 1, 50, 100), (''PM10'', 24, 45, 75),
     (''PM2.5'', 1, 15, 25), (''PM2.5'', 24, 15, 25),
     (''SO2'', 1, 100, 196), (''SO2'', 3, 100, 250), (''SO2'', 24, 40, 125),
     (''NO2'', 1, 200, 360), (''NO2'', 24, 25, 50),
     (''CO'', 1, 4000, 10000), (''CO'', 8, 7000, 10000),
     (''NO'', 1, 100, 200)]"
  by (simp add: filas_def limites_def)

lemma own_get_Some:
  assumes "distinct (map fst tbl)"
  shows "own_get tbl t = Some (b, r) \<longleftrightarrow> (\<exists>h. t = Fin (real h) \<and> (h, b, r) \<in> set tbl)"
proof (cases t)
  case (Fin x)
  have "map_option snd (find (\<lambda>(k, rangos). real k = x) tbl) = Some (b, r)
          \<longleftrightarrow> (\<exists>h. x = real h \<and> (h, b, r) \<in> set tbl)"
    using assms
  proof (induction tbl)
    case Nil
    then show ?case by simp
  next
    case (Cons e tbl)
    obtain k v where e: "e = (k, v)" by (cases e)
    show ?case
    proof (cases "real k = x")
      case True
      then have "\<And>h. x = real h \<Longrightarrow> h = k" by auto
      then show ?thesis
        using Cons.prems True unfolding e by (auto simp: rev_image_eqI)
    next
      case False
      then show ?thesis
        using Cons unfolding e by auto
    qed
  qed
  then show ?thesis unfolding Fin by simp
qed simp_all

lemma filas_iff:
  "(c, h, b, r) \<in> set filas \<longleftrightarrow> (\<exists>tbl. (c, tbl) \<in> set limites \<and> (h, b, r) \<in> set tbl)"
  by (auto simp: filas_def)

lemma limites_distinct: "distinct (map fst limites)"
  by (simp add: limites_def)

lemma limites_inner_distinct: "(c, tbl) \<in> set limites \<Longrightarrow> distinct (map fst tbl)"
  by (auto simp: limites_def)

lemma umbral_filas:
  "umbral c t = Some (b, r) \<longleftrightarrow> (\<exists>h. t = Fin (real h) \<and> (c, h, b, r) \<in> set filas)"
proof -
  have "umbral c t = Some (b, r)
          \<longleftrightarrow> (\<exists>tbl. map_of limites c = Some tbl \<and> own_get tbl t = Some (b, r))"
    by (simp add: umbral_def split: option.splits)
  also have "\<dots> \<longleftrightarrow> (\<exists>tbl. (c, tbl) \<in> set limites \<and> own_get tbl t = Some (b, r))"
    using limites_distinct by simp
  also have "\<dots> \<longleftrightarrow> (\<exists>tbl. (c, tbl) \<in> set limites
                          \<and> (\<exists>h. t = Fin (real h) \<and> (h, b, r) \<in> set tbl))"
    using own_get_Some [OF limites_inner_distinct] by blast
  also have "\<dots> \<longleftrightarrow> (\<exists>h. t = Fin (real h) \<and> (c, h, b, r) \<in> set filas)"
    unfolding filas_iff by blast
  finally show ?thesis .
qed

text \<open>
  Claim C6. The table has exactly fourteen rows of pollutant, hours, first and second
  threshold, and they are the rows listed here; no pollutant and exposure time occurs
  twice; the second threshold of a row is never below the first; and the thresholds that
  the function finds for a pollutant and an exposure time are those of the row.
\<close>

theorem tabla_de_umbrales:
  "filas =
    [(''O3'', 1, 100, 160), (''O3'', 8, 60, 100),
     (''PM10'', 1, 50, 100), (''PM10'', 24, 45, 75),
     (''PM2.5'', 1, 15, 25), (''PM2.5'', 24, 15, 25),
     (''SO2'', 1, 100, 196), (''SO2'', 3, 100, 250), (''SO2'', 24, 40, 125),
     (''NO2'', 1, 200, 360), (''NO2'', 24, 25, 50),
     (''CO'', 1, 4000, 10000), (''CO'', 8, 7000, 10000),
     (''NO'', 1, 100, 200)]
   \<and> length filas = 14
   \<and> distinct (map (\<lambda>(c, h, b, r). (c, h)) filas)
   \<and> (\<forall>(c, h, b, r) \<in> set filas. b \<le> r)
   \<and> (umbral c t = Some (b, r) \<longleftrightarrow> (\<exists>h. t = Fin (real h) \<and> (c, h, b, r) \<in> set filas))"
proof (intro conjI)
  show "length filas = 14" by (simp add: filas_eq)
  show "distinct (map (\<lambda>(c, h, b, r). (c, h)) filas)" by (simp add: filas_eq)
  show "\<forall>(c, h, b, r) \<in> set filas. b \<le> r" by (simp add: filas_eq)
qed (rule filas_eq, rule umbral_filas)

theorem tabla_de_umbrales_SO2_3:
  "(''SO2'', 3, 100, 250) \<in> set filas \<and> (100 :: real) \<le> 250
   \<and> umbral ''SO2'' (Fin 3) = Some (100, 250)"
proof -
  note th = tabla_de_umbrales [of "''SO2''" "Fin 3" 100 250]
  have m: "(''SO2'', 3, 100, 250) \<in> set filas"
    by (simp add: filas_eq)
  have "\<forall>(c, h, b, r) \<in> set filas. b \<le> r"
    by (rule th [THEN conjunct2, THEN conjunct2, THEN conjunct2, THEN conjunct1])
  then have le: "(100 :: real) \<le> 250"
    using m by (auto dest: bspec)
  have iff: "umbral ''SO2'' (Fin 3) = Some (100, 250)
               \<longleftrightarrow> (\<exists>h. Fin 3 = Fin (real h) \<and> (''SO2'', h, 100, 250) \<in> set filas)"
    by (rule th [THEN conjunct2, THEN conjunct2, THEN conjunct2, THEN conjunct2])
  have "\<exists>h. Fin 3 = Fin (real h) \<and> (''SO2'', h, 100, 250) \<in> set filas"
    using m by (intro exI [of _ 3]) simp
  then have "umbral ''SO2'' (Fin 3) = Some (100, 250)"
    using iff by (rule iffD2 [rotated])
  then show ?thesis using m le by simp
qed

section \<open>Every input at once\<close>

text \<open>The four branches as one case distinction on the input.\<close>

lemma clasificar_casos:
  obtains (raises) "ToNumber rt v = Inl TypeError"
      and "clasificarCalidadAire rt c v t = Inl TypeError"
  | (sin_valor) "v = Null \<or> v = Undefined \<or> ToNumber rt v = Inr NaN"
      and "clasificarCalidadAire rt c v t =
             Inr \<lparr>nivel = ''Sin datos'', color = ''#9E9E9E'',
                  descripcion = txt_sin_informacion, limites_oms = None\<rparr>"
  | (sin_umbral) n where "ToNumber rt v = Inr n" and "n \<noteq> NaN" and "v \<noteq> Null"
      and "umbral c t = None"
      and "clasificarCalidadAire rt c v t =
             Inr \<lparr>nivel = ''Sin datos'', color = ''#9E9E9E'',
                  descripcion =
                    (if limites_get c = NoProperty then txt_sin_referencia c
                     else txt_sin_tiempo rt c t),
                  limites_oms = None\<rparr>"
  | (con_umbral) n g m where "ToNumber rt v = Inr n" and "n \<noteq> NaN" and "v \<noteq> Null"
      and "umbral c t = Some (g, m)"
      and "clasificarCalidadAire rt c v t =
             Inr (if js_le n (Fin g) then
                    \<lparr>nivel = ''Buena'', color = ''#00E400'', descripcion = txt_buena,
                     limites_oms = Some \<lparr>buena = g, regular = m, tiempo_horas = t,
                                          fuente = ''OMS 2021''\<rparr>\<rparr>
                  else if js_le n (Fin m) then
                    \<lparr>nivel = ''Regular'', color = ''#FFFF00'', descripcion = txt_regular,
                     limites_oms = Some \<lparr>buena = g, regular = m, tiempo_horas = t,
                                          fuente = ''OMS 2021''\<rparr>\<rparr>
                  else
                    \<lparr>nivel = ''Mala'', color = ''#FF0000'', descripcion = txt_mala,
                     limites_oms = Some \<lparr>buena = g, regular = m, tiempo_horas = t,
                                          fuente = ''OMS 2021''\<rparr>\<rparr>)"
proof (cases rule: cases_of_value [of rt v])
  case raises
  then show ?thesis using that(1) clasificar_TypeError by blast
next
  case missing
  then show ?thesis using that(2) clasificar_sin_valor by blast
next
  case (number n)
  show ?thesis
  proof (cases "umbral c t")
    case None
    then show ?thesis
      using that(3) [OF number None] clasificar_sin_umbral [OF None number] by blast
  next
    case (Some p)
    obtain g m where p: "p = (g, m)" by (cases p)
    have u: "umbral c t = Some (g, m)" using Some p by simp
    show ?thesis
      using that(4) [OF number u] clasificar_con_umbral [OF u number] by blast
  qed
qed

lemma txt_nonempty:
  "txt_sin_informacion \<noteq> []" "txt_sin_referencia c \<noteq> []" "txt_sin_tiempo rt c t \<noteq> []"
  "txt_buena \<noteq> []" "txt_regular \<noteq> []" "txt_mala \<noteq> []"
  by (simp_all add: txt_sin_informacion_def txt_sin_referencia_def txt_sin_tiempo_def
      txt_buena_def txt_regular_def txt_mala_def)

section \<open>A result for every value\<close>

text \<open>
  The conversion of the value by \<open>isNaN\<close> decides whether the function returns: it
  returns for \<open>undefined\<close>, \<open>null\<close>, a boolean, a number and a string. A Symbol and a
  BigInt are outside the documented type of \<open>valor\<close>, and the one call of the function
  passes the result of \<open>parseFloat\<close>, which is a number.
\<close>

lemma resultado_primitivo:
  "(v = Symbol \<or> (\<exists>i. v = BigInt i) \<longrightarrow> clasificarCalidadAire rt c v t = Inl TypeError)
   \<and> (v \<noteq> Symbol \<and> (\<forall>i. v \<noteq> BigInt i) \<longrightarrow>
        (\<exists>r. clasificarCalidadAire rt c v t = Inr r
            \<and> nivel r \<in> {''Buena'', ''Regular'', ''Mala'', ''Sin datos''}
            \<and> color r \<in> {''#00E400'', ''#FFFF00'', ''#FF0000'', ''#9E9E9E''}
            \<and> descripcion r \<noteq> []
            \<and> (v = Null \<or> v = Undefined \<or> ToNumber rt v = Inr NaN \<or> umbral c t = None
                 \<longrightarrow> nivel r = ''Sin datos'')))"
proof (cases rule: clasificar_casos [of rt v c t])
  case raises
  then show ?thesis using ToNumber_cases [of rt v TypeError] by simp
next
  case sin_valor
  have "ToNumber rt v \<noteq> Inl TypeError" using sin_valor(1) by auto
  then have "v \<noteq> Symbol \<and> (\<forall>i. v \<noteq> BigInt i)"
    using ToNumber_cases [of rt v TypeError] by simp
  then show ?thesis using sin_valor(2) txt_nonempty(1) by simp
next
  case (sin_umbral n)
  have "v \<noteq> Symbol \<and> (\<forall>i. v \<noteq> BigInt i)"
    using ToNumber_cases [of rt v TypeError] sin_umbral(1) by simp
  then show ?thesis
    using sin_umbral(5) txt_nonempty(2) [of c] txt_nonempty(3) [of rt c t] by simp
next
  case (con_umbral n g m)
  have v: "v \<noteq> Symbol \<and> (\<forall>i. v \<noteq> BigInt i)"
    using ToNumber_cases [of rt v TypeError] con_umbral(1) by simp
  have "v \<noteq> Undefined" using con_umbral(1,2) by auto
  then have s: "\<not> (v = Null \<or> v = Undefined \<or> ToNumber rt v = Inr NaN \<or> umbral c t = None)"
    using con_umbral(1-4) by simp
  show ?thesis
    using v s con_umbral(5) txt_nonempty(4-6) by simp
qed

text \<open>
  Claim C2. The function raises no error: for every pollutant, known or unknown, every
  exposure time and every value that is \<open>undefined\<close>, \<open>null\<close>, a number (\<open>NaN\<close> and the
  infinities included) or not a number at all (a boolean, a string), it returns a result
  with one of the four levels, one of the four colours and a description that is not
  empty. The level is \<open>Sin datos\<close> (Unavailable) whenever the value is missing or
  converts to \<open>NaN\<close>, or the table has no thresholds for the pollutant and the exposure
  time.
\<close>

theorem nunca_lanza:
  assumes "v = Undefined \<or> v = Null \<or> (\<exists>b. v = Boolean b) \<or> (\<exists>n. v = Number n)
             \<or> (\<exists>s. v = String s)"
  shows "\<exists>r. clasificarCalidadAire rt c v t = Inr r
           \<and> nivel r \<in> {''Buena'', ''Regular'', ''Mala'', ''Sin datos''}
           \<and> color r \<in> {''#00E400'', ''#FFFF00'', ''#FF0000'', ''#9E9E9E''}
           \<and> descripcion r \<noteq> []
           \<and> (v = Null \<or> v = Undefined \<or> ToNumber rt v = Inr NaN \<or> umbral c t = None
                \<longrightarrow> nivel r = ''Sin datos'')"
proof -
  have "v \<noteq> Symbol \<and> (\<forall>i. v \<noteq> BigInt i)" using assms by auto
  then show ?thesis
    using resultado_primitivo [of v rt c t, THEN conjunct2] by (rule rev_mp)
qed

theorem nunca_lanza_SO2:
  "(Null = Undefined \<or> Null = Null \<or> (\<exists>b. Null = Boolean b) \<or> (\<exists>n. Null = Number n)
      \<or> (\<exists>s. Null = String s))
   \<and> (\<exists>r. clasificarCalidadAire runtime_0 ''SO2'' Null (Fin 24) = Inr r
          \<and> nivel r = ''Sin datos'' \<and> color r = ''#9E9E9E'' \<and> descripcion r \<noteq> [])
   \<and> (\<exists>r. clasificarCalidadAire runtime_0 ''SO2'' (Number (Fin 30)) (Fin 24) = Inr r
          \<and> nivel r \<in> {''Buena'', ''Regular'', ''Mala'', ''Sin datos''})
   \<and> (\<exists>r. clasificarCalidadAire runtime_0 ''SO2'' (Boolean True) (Fin 5) = Inr r
          \<and> nivel r = ''Sin datos'')"
proof -
  have h: "Null = Undefined \<or> Null = Null \<or> (\<exists>b. Null = Boolean b) \<or> (\<exists>n. Null = Number n)
             \<or> (\<exists>s. Null = String s)"
    by simp
  have a: "\<exists>r. clasificarCalidadAire runtime_0 ''SO2'' Null (Fin 24) = Inr r
          \<and> nivel r = ''Sin datos'' \<and> color r = ''#9E9E9E'' \<and> descripcion r \<noteq> []"
  proof -
    obtain r where r: "clasificarCalidadAire runtime_0 ''SO2'' Null (Fin 24) = Inr r"
        "descripcion r \<noteq> []"
        "Null = Null \<or> Null = Undefined \<or> ToNumber runtime_0 Null = Inr NaN
           \<or> umbral ''SO2'' (Fin 24) = None \<longrightarrow> nivel r = ''Sin datos''"
      using nunca_lanza [OF h, of runtime_0 "''SO2''" "Fin 24"] by blast
    have c: "color r = ''#9E9E9E''"
      using r(1) by (auto simp: clasificarCalidadAire_def)
    show ?thesis using r c by simp
  qed
  have b: "\<exists>r. clasificarCalidadAire runtime_0 ''SO2'' (Number (Fin 30)) (Fin 24) = Inr r
          \<and> nivel r \<in> {''Buena'', ''Regular'', ''Mala'', ''Sin datos''}"
    using nunca_lanza [of "Number (Fin 30)" runtime_0 "''SO2''" "Fin 24"] by blast
  have u: "umbral ''SO2'' (Fin 5) = None" by (simp add: umbral_def limites_def)
  have c: "\<exists>r. clasificarCalidadAire runtime_0 ''SO2'' (Boolean True) (Fin 5) = Inr r
          \<and> nivel r = ''Sin datos''"
    using nunca_lanza [of "Boolean True" runtime_0 "''SO2''" "Fin 5"] u by auto
  from h a b c show ?thesis by blast
qed

section \<open>Colours and descriptions\<close>

text \<open>
  Claim C7, as the code has it. The description of the level \<open>Buena\<close> (Good) is the Spanish
  sentence of the source, not the English sentence of the specification.
\<close>

theorem descripcion_buena_PM25:
  "map_sum id nivel (clasificarCalidadAire runtime_0 ''PM2.5'' (Number (Fin 12)) (Fin 24))
     = Inr ''Buena''
   \<and> map_sum id descripcion
       (clasificarCalidadAire runtime_0 ''PM2.5'' (Number (Fin 12)) (Fin 24))
     \<noteq> Inr ''Air quality meets WHO standards and poses no health risk.''"
  by (simp add: clasificarCalidadAire_def isNaN_def limites_get_def limites_def txt_buena_def)

text \<open>
  Claim C7, amended. Every result has one of four rows of level, colour and description:
  \<open>Buena\<close> with \<open>#00E400\<close>, \<open>Regular\<close> with \<open>#FFFF00\<close>, \<open>Mala\<close> with \<open>#FF0000\<close>, each with
  the Spanish sentence of the source, and \<open>Sin datos\<close> with \<open>#9E9E9E\<close> and one of the three
  messages for a missing value, a pollutant without reference parameters or an exposure
  time without parameters. The four levels and the four colours are pairwise different, so
  each determines the other.
\<close>

theorem colores_y_descripciones:
  assumes "clasificarCalidadAire rt c v t = Inr r"
  shows "(nivel r = ''Buena'' \<and> color r = ''#00E400'' \<and> descripcion r = txt_buena)
       \<or> (nivel r = ''Regular'' \<and> color r = ''#FFFF00'' \<and> descripcion r = txt_regular)
       \<or> (nivel r = ''Mala'' \<and> color r = ''#FF0000'' \<and> descripcion r = txt_mala)
       \<or> (nivel r = ''Sin datos'' \<and> color r = ''#9E9E9E''
            \<and> descripcion r
                \<in> {txt_sin_informacion, txt_sin_referencia c, txt_sin_tiempo rt c t})"
proof (cases rule: clasificar_casos [of rt v c t])
  case raises
  then show ?thesis using assms by simp
next
  case sin_valor
  then show ?thesis using assms by auto
next
  case (sin_umbral n)
  then show ?thesis using assms by auto
next
  case (con_umbral n g m)
  then show ?thesis using assms by (auto split: if_splits)
qed

theorem colores_y_descripciones_NO2:
  "clasificarCalidadAire runtime_0 ''NO2'' (Number (Fin 400)) (Fin 1) =
     Inr \<lparr>nivel = ''Mala'', color = ''#FF0000'', descripcion = txt_mala,
          limites_oms = Some \<lparr>buena = 200, regular = 360, tiempo_horas = Fin 1,
                               fuente = ''OMS 2021''\<rparr>\<rparr>"
proof -
  have e: "\<exists>r. clasificarCalidadAire runtime_0 ''NO2'' (Number (Fin 400)) (Fin 1) = Inr r"
    by (simp add: clasificarCalidadAire_def isNaN_def limites_get_def limites_def)
  then obtain r where r: "clasificarCalidadAire runtime_0 ''NO2'' (Number (Fin 400)) (Fin 1) = Inr r"
    by blast
  have n: "nivel r = ''Mala''"
    using r by (auto simp: clasificarCalidadAire_def isNaN_def limites_get_def limites_def)
  have l: "limites_oms r = Some \<lparr>buena = 200, regular = 360, tiempo_horas = Fin 1,
                               fuente = ''OMS 2021''\<rparr>"
    using r by (auto simp: clasificarCalidadAire_def isNaN_def limites_get_def limites_def)
  have "color r = ''#FF0000'' \<and> descripcion r = txt_mala"
    using colores_y_descripciones [OF r] n by simp
  then have "r = \<lparr>nivel = ''Mala'', color = ''#FF0000'', descripcion = txt_mala,
          limites_oms = Some \<lparr>buena = 200, regular = 360, tiempo_horas = Fin 1,
                               fuente = ''OMS 2021''\<rparr>\<rparr>"
    using n l by (cases r) simp
  then show ?thesis using r by simp
qed

section \<open>The thresholds in the result\<close>

text \<open>
  Claim C8, as the code has it. The label of the source in \<open>limites_oms\<close> is
  \<open>OMS 2021\<close>, not \<open>WHO 2021\<close>.
\<close>

theorem fuente_CO_8:
  "map_sum id nivel (clasificarCalidadAire runtime_0 ''CO'' (Number (Fin 10000)) (Fin 8))
     = Inr ''Regular''
   \<and> map_sum id (map_option fuente \<circ> limites_oms)
       (clasificarCalidadAire runtime_0 ''CO'' (Number (Fin 10000)) (Fin 8))
     = Inr (Some ''OMS 2021'')
   \<and> map_sum id (map_option fuente \<circ> limites_oms)
       (clasificarCalidadAire runtime_0 ''CO'' (Number (Fin 10000)) (Fin 8))
     \<noteq> Inr (Some ''WHO 2021'')"
  by (simp add: clasificarCalidadAire_def isNaN_def limites_get_def limites_def)

text \<open>
  Claim C8, amended. A result of level \<open>Buena\<close>, \<open>Regular\<close> or \<open>Mala\<close> carries in
  \<open>limites_oms\<close> the two thresholds that the table holds for the pollutant and the
  exposure time, the exposure time as it was passed, and the label \<open>OMS 2021\<close>; a result
  of level \<open>Sin datos\<close> has no \<open>limites_oms\<close>; and there is no other level.
\<close>

theorem referencia_de_umbrales:
  assumes "clasificarCalidadAire rt c v t = Inr r"
  shows "(nivel r \<in> {''Buena'', ''Regular'', ''Mala''} \<longrightarrow>
            (\<exists>g m. umbral c t = Some (g, m)
               \<and> limites_oms r = Some \<lparr>buena = g, regular = m, tiempo_horas = t,
                                        fuente = ''OMS 2021''\<rparr>))
       \<and> (nivel r = ''Sin datos'' \<longrightarrow> limites_oms r = None)
       \<and> nivel r \<in> {''Buena'', ''Regular'', ''Mala'', ''Sin datos''}"
proof (cases rule: clasificar_casos [of rt v c t])
  case raises
  then show ?thesis using assms by simp
next
  case sin_valor
  then show ?thesis using assms by auto
next
  case (sin_umbral n)
  then show ?thesis using assms by auto
next
  case (con_umbral n g m)
  then show ?thesis using assms by (auto split: if_splits)
qed

theorem referencia_de_umbrales_PM10:
  "(\<exists>r. clasificarCalidadAire runtime_0 ''PM10'' (Number (Fin 60)) (Fin 24) = Inr r
       \<and> nivel r = ''Regular''
       \<and> limites_oms r = Some \<lparr>buena = 45, regular = 75, tiempo_horas = Fin 24,
                                 fuente = ''OMS 2021''\<rparr>)
   \<and> (\<exists>r. clasificarCalidadAire runtime_0 ''PM10'' (Number (Fin 60)) (Fin 8) = Inr r
       \<and> nivel r = ''Sin datos'' \<and> limites_oms r = None)"
proof -
  have e: "\<exists>r. clasificarCalidadAire runtime_0 ''PM10'' (Number (Fin 60)) (Fin 24) = Inr r
             \<and> nivel r = ''Regular''"
    by (simp add: clasificarCalidadAire_def isNaN_def limites_get_def limites_def)
  then obtain r where r: "clasificarCalidadAire runtime_0 ''PM10'' (Number (Fin 60)) (Fin 24) = Inr r"
    and n: "nivel r = ''Regular''" by blast
  have u: "umbral ''PM10'' (Fin 24) = Some (45, 75)"
    by (simp add: umbral_def limites_def)
  have "limites_oms r = Some \<lparr>buena = 45, regular = 75, tiempo_horas = Fin 24,
                                 fuente = ''OMS 2021''\<rparr>"
    using referencia_de_umbrales [OF r] n u by simp
  then have a: "\<exists>r. clasificarCalidadAire runtime_0 ''PM10'' (Number (Fin 60)) (Fin 24) = Inr r
       \<and> nivel r = ''Regular''
       \<and> limites_oms r = Some \<lparr>buena = 45, regular = 75, tiempo_horas = Fin 24,
                                 fuente = ''OMS 2021''\<rparr>"
    using r n by simp
  have e': "\<exists>r. clasificarCalidadAire runtime_0 ''PM10'' (Number (Fin 60)) (Fin 8) = Inr r
             \<and> nivel r = ''Sin datos''"
    by (simp add: clasificarCalidadAire_def isNaN_def limites_get_def limites_def)
  then obtain r' where r': "clasificarCalidadAire runtime_0 ''PM10'' (Number (Fin 60)) (Fin 8) = Inr r'"
    and n': "nivel r' = ''Sin datos''" by blast
  have "limites_oms r' = None"
    using referencia_de_umbrales [OF r'] n' by simp
  then have b: "\<exists>r. clasificarCalidadAire runtime_0 ''PM10'' (Number (Fin 60)) (Fin 8) = Inr r
       \<and> nivel r = ''Sin datos'' \<and> limites_oms r = None"
    using r' n' by simp
  from a b show ?thesis by simp
qed

end
